theory Spec2Isabelle
  imports Main
begin

section \<open>Protocol data\<close>

text \<open>
  The debug adapter bridge of \<^verbatim>\<open>FirefoxDebugSession\<close> (\<^verbatim>\<open>src/unnamed/part_000\<close>),
  the descriptor proxy (\<^verbatim>\<open>src/unnamed/part_001\<close>) and the root proxy
  (\<^verbatim>\<open>src/src/firefox/actorProxy/root.ts\<close>, with the pending-request queue of
  \<^verbatim>\<open>src/unnamed/part_002\<close>).

  JavaScript numbers that count or identify (thread ids, hit counts, lines, columns) are
  \<open>int\<close> or \<open>nat\<close>; an optional field is an \<open>option\<close>; a JavaScript \<open>Map\<close> whose
  order is observed is an association list. Every event handler is run to completion as
  one transition: the values its \<^verbatim>\<open>await\<close>s receive are read from the state or from an
  environment record, and what it does to the outside (events sent to the editor, calls
  on proxies, log lines) is returned as a list of effects, in program order. A log line
  keeps its level; where its text interpolates a value that the model has no string for
  (a caught error, a count), the text is abbreviated.
\<close>

record Preview =
  kind :: string
  message :: string

text \<open>
  A grip is a boolean, a number, a string, or an object with a \<^verbatim>\<open>type\<close> tag; the object
  grip (\<^verbatim>\<open>type === 'object'\<close>) carries a class and an optional preview.
\<close>

datatype Grip =
    BooleanGrip bool
  | NumberGrip int
  | StringGrip string
  | ComplexGrip (grip_type: string) (grip_class: string) (grip_preview: "Preview option")

text \<open>JavaScript truthiness of a grip, as \<^verbatim>\<open>reason.exception\<close> is tested.\<close>

fun truthy :: "Grip \<Rightarrow> bool" where
  "truthy (BooleanGrip b) = b"
| "truthy (NumberGrip n) = (n \<noteq> 0)"
| "truthy (StringGrip s) = (s \<noteq> [])"
| "truthy (ComplexGrip t c p) = True"

record ThreadPausedReason =
  reason_type :: string
  actors :: "string list option"
  exception :: "Grip option"

record Location =
  line :: int
  column :: int

record SourceLocation = Location +
  actor :: string

record Frame =
  frame_where :: SourceLocation

record FrameAdapter =
  frame :: Frame

record ThreadStateEvent =
  state :: string
  event_frame :: "Frame option"
  why :: "ThreadPausedReason option"

record SourceAdapter =
  isBlackBoxed :: bool
  path :: "string option"
  introductionType :: "string option"

record BreakpointInfo =
  actualLocation :: "Location option"
  hitLimit :: "int option"
  hitCount :: int

datatype TargetType = tab | iframe | worker | backgroundScript | contentScript

record ThreadAdapter =
  thread_id :: nat
  thread_type :: TargetType
  name :: string
  targetActorName :: string
  threadActorName :: string

section \<open>Events sent to the editor and other effects\<close>

record StoppedEventBody =
  reason :: string
  threadId :: nat
  stopped_text :: "string option"
  allThreadsStopped :: "bool option"

datatype EventBody =
    ThreadStartedEventBody string nat
  | ThreadExitedEventBody nat

datatype DapEvent =
    InitializedEvent
  | TerminatedEvent
  | StoppedEvent StoppedEventBody
  | ContinuedEvent nat
  | ThreadEvent string nat
  | OutputEvent string
  | Event string EventBody

datatype LogLevel = LogDebug | LogInfo | LogWarn

datatype Effect =
    SendEvent DapEvent
  | Resume nat
  | FetchAllStackFrames nat
  | DisposePauseLifetimeAdapters nat
  | SetTargetDestroyed string
  | DisposeThread nat
  | DisposeDescriptor nat
  | Log LogLevel string
  | CloseReloadWatcher
  | Disconnect
  | Kill string
  | RaceDelay nat
  | InstallAddon string
  | Delay nat
  | FsRemove string
  | RejectStart string
  | ResolveStart
  | FetchRoot
  | GetProcess nat
  | AttachDescriptor
  | FetchTabs
  | AddonSessionStarted
  | WatchResources "string list"

section \<open>Stop-reason classification: \<^verbatim>\<open>sendStoppedEvent\<close>\<close>

text \<open>
  \<^verbatim>\<open>new StoppedEvent(pauseType, threadAdapter.id)\<close> with \<^verbatim>\<open>allThreadsStopped = false\<close>;
  the text is set only for a truthy \<^verbatim>\<open>reason.exception\<close>.
\<close>

definition exceptionText :: "Grip \<Rightarrow> string option" where
  "exceptionText g =
     (case g of
        StringGrip s \<Rightarrow> Some s
      | ComplexGrip t c p \<Rightarrow>
          (if t = ''object'' then
             (case p of
                Some pv \<Rightarrow> (if kind pv = ''Error'' then Some (c @ '': '' @ message pv) else Some c)
              | None \<Rightarrow> Some c)
           else None)
      | _ \<Rightarrow> None)"

definition stoppedEvent :: "ThreadAdapter \<Rightarrow> ThreadPausedReason option \<Rightarrow> StoppedEventBody" where
  "stoppedEvent threadAdapter rsn =
     (let pauseType = (case rsn of Some r \<Rightarrow> reason_type r | None \<Rightarrow> ''interrupt'') in
      \<lparr> reason = pauseType,
        threadId = thread_id threadAdapter,
        stopped_text = (case rsn of
                  None \<Rightarrow> None
                | Some r \<Rightarrow>
                    (case exception r of
                       None \<Rightarrow> None
                     | Some g \<Rightarrow> (if truthy g then exceptionText g else None))),
        allThreadsStopped = Some False \<rparr>)"

definition sendStoppedEvent :: "ThreadAdapter \<Rightarrow> ThreadPausedReason option \<Rightarrow> Effect list" where
  "sendStoppedEvent threadAdapter rsn = [SendEvent (StoppedEvent (stoppedEvent threadAdapter rsn))]"

section \<open>Session state\<close>

text \<open>
  The parts of the session the handlers below read and write. \<open>breakpoints\<close> is
  \<^verbatim>\<open>breakpointsManager.getBreakpoints(path)\<close>; \<open>sources\<close> is what
  \<^verbatim>\<open>sources.getAdapterForActor(actor)\<close> resolves to, \<open>None\<close> standing for a rejected
  promise (the handlers catch it). The mutable fields of a thread adapter are kept per
  thread id. \<open>adapterThreads\<close> holds \<^verbatim>\<open>adapter.threads\<close> of each descriptor adapter, a
  JavaScript \<open>Set\<close> in insertion order.
\<close>

record Session =
  breakpoints :: "string \<rightharpoonup> BreakpointInfo list"
  sources :: "string \<rightharpoonup> SourceAdapter"
  threadPausedReason :: "nat \<Rightarrow> ThreadPausedReason option"
  pauseLifetimeAdapters :: "nat \<Rightarrow> nat list"
  variablesProviders :: "nat list"
  threadsByTargetActorName :: "string \<rightharpoonup> ThreadAdapter"
  adapterThreads :: "nat \<Rightarrow> ThreadAdapter list"
  nextThreadId :: nat
  descriptors :: "nat set"
  nextDescriptorId :: nat

text \<open>What the awaited collaborators that are not part of the session answer.\<close>

record Env =
  applySourceMapToFrame :: "Frame \<Rightarrow> Frame"
  fetchAllStackFrames :: "nat \<Rightarrow> FrameAdapter list option"

datatype Settled = Fulfilled | Rejected string

type_synonym Handled = "Settled \<times> Session \<times> Effect list"

definition outcome :: "Handled \<Rightarrow> Settled" where
  "outcome h = fst h"

definition sessionAfter :: "Handled \<Rightarrow> Session" where
  "sessionAfter h = fst (snd h)"

definition effects :: "Handled \<Rightarrow> Effect list" where
  "effects h = snd (snd h)"

section \<open>The thread state machine: \<^verbatim>\<open>targetActor.onThreadState\<close>\<close>

text \<open>\<^verbatim>\<open>Array.prototype.find\<close>, by index, so that the element found can be updated in place.\<close>

fun findIndex :: "('a \<Rightarrow> bool) \<Rightarrow> 'a list \<Rightarrow> nat option" where
  "findIndex p [] = None"
| "findIndex p (x # xs) =
     (if p x then Some 0 else (case findIndex p xs of None \<Rightarrow> None | Some i \<Rightarrow> Some (Suc i)))"

definition matchesLocation :: "SourceLocation \<Rightarrow> BreakpointInfo \<Rightarrow> bool" where
  "matchesLocation sourceLocation bpInfo =
     (case actualLocation bpInfo of
        None \<Rightarrow> False
      | Some al \<Rightarrow> line al = line sourceLocation \<and> column al = column sourceLocation)"

text \<open>A string, a number and an array as a JavaScript condition.\<close>

definition truthyString :: "string option \<Rightarrow> bool" where
  "truthyString x = (case x of None \<Rightarrow> False | Some s \<Rightarrow> s \<noteq> [])"

definition truthyNumber :: "int option \<Rightarrow> bool" where
  "truthyNumber x = (case x of None \<Rightarrow> False | Some n \<Rightarrow> n \<noteq> 0)"

definition isBreakpointStop :: "ThreadStateEvent \<Rightarrow> bool" where
  "isBreakpointStop event =
     (case why event of
        None \<Rightarrow> False
      | Some w \<Rightarrow>
          reason_type w = ''breakpoint'' \<and>
          (case actors w of None \<Rightarrow> False | Some as \<Rightarrow> length as > 0))"

definition isExceptionStop :: "ThreadStateEvent \<Rightarrow> bool" where
  "isExceptionStop event =
     (case why event of None \<Rightarrow> False | Some w \<Rightarrow> reason_type w = ''exception'')"

text \<open>
  The first \<^verbatim>\<open>try\<close> block of the paused branch: the blackbox gate, then the hit-count
  gate. The result says whether the handler returned there (\<open>True\<close>) or goes on.
\<close>

definition hitCountGate ::
  "Session \<Rightarrow> ThreadAdapter \<Rightarrow> SourceLocation \<Rightarrow> string \<Rightarrow> bool \<times> Session \<times> Effect list" where
  "hitCountGate s threadAdapter sourceLocation p =
     (case breakpoints s p of
        None \<Rightarrow> (False, s, [])
      | Some bps \<Rightarrow>
          (case findIndex (matchesLocation sourceLocation) bps of
             None \<Rightarrow> (False, s, [])
           | Some i \<Rightarrow>
               (let breakpointInfo = bps ! i in
                if truthyNumber (hitLimit breakpointInfo) then
                  (let counted = breakpointInfo\<lparr>hitCount := hitCount breakpointInfo + 1\<rparr>;
                       s' = s\<lparr>breakpoints := (breakpoints s)(p \<mapsto> bps[i := counted])\<rparr>
                   in if hitCount counted < the (hitLimit counted)
                      then (True, s', [Resume (thread_id threadAdapter)])
                      else (False, s', []))
                else (False, s, []))))"

definition pausedGates ::
  "Session \<Rightarrow> ThreadAdapter \<Rightarrow> ThreadStateEvent \<Rightarrow> SourceLocation \<Rightarrow> bool \<times> Session \<times> Effect list" where
  "pausedGates s threadAdapter event sourceLocation =
     (case sources s (actor sourceLocation) of
        None \<Rightarrow> (False, s, [Log LogWarn ''String(err)''])
      | Some sourceAdapter \<Rightarrow>
          if isBlackBoxed sourceAdapter then (True, s, [Resume (thread_id threadAdapter)])
          else if isBreakpointStop event \<and> truthyString (path sourceAdapter)
          then hitCountGate s threadAdapter sourceLocation (the (path sourceAdapter))
          else (False, s, []))"

text \<open>
  The exception gate: the last frame of the fetched stack decides. A rejected
  \<^verbatim>\<open>fetchAllStackFrames\<close> rejects the handler; a rejected source lookup is caught.
\<close>

datatype Gate = Returned | Continue | Threw

definition debuggerEvalGate ::
  "Env \<Rightarrow> Session \<Rightarrow> ThreadAdapter \<Rightarrow> ThreadStateEvent \<Rightarrow> Gate \<times> Effect list" where
  "debuggerEvalGate env s threadAdapter event =
     (if isExceptionStop event then
        (case fetchAllStackFrames env (thread_id threadAdapter) of
           None \<Rightarrow> (Threw, [FetchAllStackFrames (thread_id threadAdapter)])
         | Some frames \<Rightarrow>
             (if length frames > 0 then
                (let startFrame = frames ! (length frames - 1) in
                 case sources s (actor (frame_where (frame startFrame))) of
                   None \<Rightarrow>
                     (Continue, [FetchAllStackFrames (thread_id threadAdapter),
                                 Log LogWarn ''String(err)''])
                 | Some sourceAdapter \<Rightarrow>
                     if introductionType sourceAdapter = Some ''debugger eval''
                     then (Returned, [FetchAllStackFrames (thread_id threadAdapter),
                                      Resume (thread_id threadAdapter)])
                     else (Continue, [FetchAllStackFrames (thread_id threadAdapter)]))
              else (Continue, [FetchAllStackFrames (thread_id threadAdapter)])))
      else (Continue, []))"

definition pausedMessage :: "ThreadAdapter \<Rightarrow> ThreadStateEvent \<Rightarrow> string" where
  "pausedMessage threadAdapter event =
     ''Thread '' @ threadActorName threadAdapter @ '' paused , reason: '' @
     (case why event of None \<Rightarrow> ''undefined'' | Some w \<Rightarrow> reason_type w)"

definition onPaused :: "Env \<Rightarrow> ThreadAdapter \<Rightarrow> ThreadStateEvent \<Rightarrow> Session \<Rightarrow> Handled" where
  "onPaused env threadAdapter event s =
     (case event_frame event of
        None \<Rightarrow> (Rejected ''TypeError'', s, [])
      | Some f \<Rightarrow>
          (let sourceLocation = frame_where (applySourceMapToFrame env f);
               (returned, s1, effs1) = pausedGates s threadAdapter event sourceLocation
           in if returned then (Fulfilled, s1, effs1)
              else
                (case debuggerEvalGate env s1 threadAdapter event of
                   (Threw, effs2) \<Rightarrow> (Rejected ''fetchAllStackFrames'', s1, effs1 @ effs2)
                 | (Returned, effs2) \<Rightarrow> (Fulfilled, s1, effs1 @ effs2)
                 | (Continue, effs2) \<Rightarrow>
                     (Fulfilled,
                      s1\<lparr>threadPausedReason :=
                            (threadPausedReason s1)(thread_id threadAdapter := why event)\<rparr>,
                      effs1 @ effs2 @
                      [FetchAllStackFrames (thread_id threadAdapter),
                       Log LogInfo (pausedMessage threadAdapter event)] @
                      sendStoppedEvent threadAdapter (why event)))))"

text \<open>
  Modelled from the spec: \<^verbatim>\<open>ThreadAdapter.disposePauseLifetimeAdapters\<close> is not among the
  sources. Per the data model, the pause-lifetime proxies of the thread are disposed and
  the variable-reference ids issued under the pause are invalidated by that disposal:
  they leave the registry of variables providers.
\<close>

definition disposePauseLifetimeAdapters :: "ThreadAdapter \<Rightarrow> Session \<Rightarrow> Session" where
  "disposePauseLifetimeAdapters threadAdapter s =
     s\<lparr>variablesProviders :=
          filter (\<lambda>v. v \<notin> set (pauseLifetimeAdapters s (thread_id threadAdapter)))
            (variablesProviders s),
       pauseLifetimeAdapters := (pauseLifetimeAdapters s)(thread_id threadAdapter := [])\<rparr>"

definition onResumed :: "ThreadAdapter \<Rightarrow> Session \<Rightarrow> Handled" where
  "onResumed threadAdapter s =
     (Fulfilled,
      disposePauseLifetimeAdapters threadAdapter s,
      [Log LogInfo (''Thread '' @ threadActorName threadAdapter @ '' resumed''),
       DisposePauseLifetimeAdapters (thread_id threadAdapter),
       SendEvent (ContinuedEvent (thread_id threadAdapter))])"

definition onThreadState :: "Env \<Rightarrow> ThreadAdapter \<Rightarrow> ThreadStateEvent \<Rightarrow> Session \<Rightarrow> Handled" where
  "onThreadState env threadAdapter event s =
     (if state event = ''paused'' then onPaused env threadAdapter event s
      else if state event = ''resumed'' then onResumed threadAdapter s
      else (Fulfilled, s, []))"

text \<open>The pauses of one thread, handled one after the other; the effects of each are kept apart.\<close>

fun handleAll ::
  "Env \<Rightarrow> ThreadAdapter \<Rightarrow> ThreadStateEvent list \<Rightarrow> Session \<Rightarrow> Session \<times> Effect list list" where
  "handleAll env threadAdapter [] s = (s, [])"
| "handleAll env threadAdapter (event # events) s =
     (case onThreadState env threadAdapter event s of
        (settled, s', effs) \<Rightarrow>
          (case handleAll env threadAdapter events s' of
             (s'', rest) \<Rightarrow> (s'', effs # rest)))"

definition stoppedEvents :: "Effect list \<Rightarrow> StoppedEventBody list" where
  "stoppedEvents effs =
     concat (map (\<lambda>e. case e of SendEvent (StoppedEvent b) \<Rightarrow> [b] | _ \<Rightarrow> []) effs)"

definition resumes :: "Effect list \<Rightarrow> nat list" where
  "resumes effs = concat (map (\<lambda>e. case e of Resume t \<Rightarrow> [t] | _ \<Rightarrow> []) effs)"

text \<open>Observations and states used to state and prove the hit-count property.\<close>

definition hitCountOf :: "Session \<Rightarrow> string \<Rightarrow> nat \<Rightarrow> int option" where
  "hitCountOf s p i = map_option (\<lambda>bps. hitCount (bps ! i)) (breakpoints s p)"

definition surfaced :: "ThreadAdapter \<Rightarrow> ThreadStateEvent \<Rightarrow> Effect list" where
  "surfaced ta ev =
     [FetchAllStackFrames (thread_id ta),
      Log LogInfo (pausedMessage ta ev),
      SendEvent (StoppedEvent (stoppedEvent ta (why ev)))]"

text \<open>A breakpoint with hit limit N and hit count c is the first at its path that matches.\<close>

definition armed :: "Session \<Rightarrow> SourceLocation \<Rightarrow> string \<Rightarrow> nat \<Rightarrow> int \<Rightarrow> int \<Rightarrow> bool" where
  "armed s loc p i N c =
     (\<exists>sa bps. sources s (actor loc) = Some sa \<and> \<not> isBlackBoxed sa \<and> path sa = Some p \<and> p \<noteq> [] \<and>
        breakpoints s p = Some bps \<and> findIndex (matchesLocation loc) bps = Some i \<and>
        hitLimit (bps ! i) = Some N \<and> N \<noteq> 0 \<and> hitCount (bps ! i) = c)"

definition breakpointPause :: "Env \<Rightarrow> ThreadStateEvent \<Rightarrow> SourceLocation \<Rightarrow> bool" where
  "breakpointPause env ev loc =
     (\<exists>f w as. state ev = ''paused'' \<and> event_frame ev = Some f \<and>
        frame_where (applySourceMapToFrame env f) = loc \<and> why ev = Some w \<and>
        reason_type w = ''breakpoint'' \<and> actors w = Some as \<and> as \<noteq> [])"

definition counted :: "Session \<Rightarrow> string \<Rightarrow> nat \<Rightarrow> Session" where
  "counted s p i =
     s\<lparr>breakpoints := (breakpoints s)(p \<mapsto>
          (the (breakpoints s p))[i := (the (breakpoints s p) ! i)
             \<lparr>hitCount := hitCount (the (breakpoints s p) ! i) + 1\<rparr>])\<rparr>"

section \<open>Target and descriptor lifecycle: \<^verbatim>\<open>attachDescriptor\<close>, \<^verbatim>\<open>attachThread\<close>\<close>



























definition newSession :: Session where
  "newSession =
     \<lparr> breakpoints = Map.empty, sources = Map.empty,
       threadPausedReason = (\<lambda>t. None), pauseLifetimeAdapters = (\<lambda>t. []),
       variablesProviders = [], threadsByTargetActorName = Map.empty,
       adapterThreads = (\<lambda>d. []), nextThreadId = 0,
       descriptors = {}, nextDescriptorId = 0 \<rparr>"



definition sentEvents :: "Effect list \<Rightarrow> DapEvent list" where
  "sentEvents effs = concat (map (\<lambda>e. case e of SendEvent ev \<Rightarrow> [ev] | _ \<Rightarrow> []) effs)"






section \<open>Termination: \<^verbatim>\<open>disconnectFirefoxAndCleanup\<close>\<close>









section \<open>Session start: the \<^verbatim>\<open>rootActor.onInit\<close> handler\<close>






section \<open>The descriptor proxy: \<^verbatim>\<open>getWatcher\<close>\<close>

record Request =
  request_type :: string
  request_flags :: "(string \<times> bool) list"

record 'm BaseActorProxy =
  proxy_name :: string
  cachedResponses :: "string \<rightharpoonup> 'm"
  wire :: "Request list"

text \<open>
  Modelled from the spec: \<^verbatim>\<open>BaseActorProxy.sendCachedRequest\<close> is not among the sources.
  Per the contract of the actor proxy base, if a prior successful response exists for
  the key, the cached mapped value is returned without I/O; otherwise the request is
  performed and, when it succeeds, memoized. \<open>wire\<close> is the list of the requests written
  to the connection; \<open>answer\<close> is what the engine answers to the request if it is
  written: an error, or a response that \<open>convert\<close> maps.
\<close>

definition sendCachedRequest ::
  "string \<Rightarrow> Request \<Rightarrow> ('r \<Rightarrow> 'm) \<Rightarrow> string + 'r \<Rightarrow> 'm BaseActorProxy \<Rightarrow> (string + 'm) \<times> 'm BaseActorProxy" where
  "sendCachedRequest key request convert answer p =
     (case cachedResponses p key of
        Some v \<Rightarrow> (Inr v, p)
      | None \<Rightarrow>
          (let p' = p\<lparr>wire := wire p @ [request]\<rparr> in
           case answer of
             Inl err \<Rightarrow> (Inl err, p')
           | Inr response \<Rightarrow>
               (Inr (convert response),
                p'\<lparr>cachedResponses := (cachedResponses p')(key \<mapsto> convert response)\<rparr>)))"

record GetWatcherResponse =
  response_actor :: string
  content_script :: bool

record WatcherActorProxy =
  watcher_name :: string
  supportsContentScriptTargets :: bool

definition getWatcherRequest :: Request where
  "getWatcherRequest =
     \<lparr> request_type = ''getWatcher'',
       request_flags = [(''isServerTargetSwitchingEnabled'', True), (''isPopupDebuggingEnabled'', False)] \<rparr>"

definition getWatcher ::
  "string + GetWatcherResponse \<Rightarrow> WatcherActorProxy BaseActorProxy \<Rightarrow>
   (string + WatcherActorProxy) \<times> WatcherActorProxy BaseActorProxy" where
  "getWatcher answer p =
     sendCachedRequest ''getWatcher'' getWatcherRequest
       (\<lambda>response. \<lparr> watcher_name = response_actor response,
                      supportsContentScriptTargets = content_script response \<rparr>)
       answer p"

section \<open>The root proxy: \<^verbatim>\<open>fetchTabs\<close> and \<^verbatim>\<open>receiveResponse\<close>\<close>

record Tab =
  tab_actor :: string
  tab_title :: string
  tab_url :: string

record TabActorProxy =
  tabActor_name :: string
  tabActor_title :: string
  tabActor_url :: string

type_synonym TabMap = "(string \<times> TabActorProxy) list"

record Response =
  applicationType :: "string option"
  tabs :: "Tab list option"
  response_type :: "string option"

datatype RootEffect =
    EmitInit Response
  | EmitTabOpened TabActorProxy
  | EmitTabClosed TabActorProxy
  | EmitTabListChanged
  | SendRequest string string
  | SetTimeout nat RootEffect
  | ResolvePromise nat TabMap
  | RootLog LogLevel string
  | ConsoleLog string

text \<open>
  The pending requests are the promises of \<^verbatim>\<open>fetchTabs\<close> in the order they were made,
  each named by a number; \<open>nextPromise\<close> numbers the next one.
\<close>

record RootActorProxy =
  root_tabs :: TabMap
  pendingTabsRequests :: "nat list"
  nextPromise :: nat

text \<open>\<^verbatim>\<open>Map.prototype.has\<close>, \<^verbatim>\<open>get\<close> and \<^verbatim>\<open>set\<close> on an insertion-ordered map.\<close>

definition mapHas :: "('k \<times> 'v) list \<Rightarrow> 'k \<Rightarrow> bool" where
  "mapHas m k = (k \<in> set (map fst m))"

definition mapGet :: "('k \<times> 'v) list \<Rightarrow> 'k \<Rightarrow> 'v option" where
  "mapGet m k = map_of m k"

fun mapSet :: "'k \<Rightarrow> 'v \<Rightarrow> ('k \<times> 'v) list \<Rightarrow> ('k \<times> 'v) list" where
  "mapSet k v [] = [(k, v)]"
| "mapSet k v (e # es) = (if fst e = k then (k, v) # es else e # mapSet k v es)"

text \<open>\<^verbatim>\<open>PendingRequests.enqueue\<close> and \<^verbatim>\<open>PendingRequests.resolveOne\<close>.\<close>

definition enqueue :: "nat \<Rightarrow> nat list \<Rightarrow> nat list" where
  "enqueue req pendingRequests = pendingRequests @ [req]"

definition resolveOne :: "TabMap \<Rightarrow> nat list \<Rightarrow> nat list \<times> RootEffect list" where
  "resolveOne t pendingRequests =
     (case pendingRequests of
        request # rest \<Rightarrow> (rest, [ResolvePromise request t])
      | [] \<Rightarrow> ([], [ConsoleLog ''Received response without corresponding request!?'']))"

definition fetchTabs :: "RootActorProxy \<Rightarrow> nat \<times> RootActorProxy \<times> RootEffect list" where
  "fetchTabs p =
     (nextPromise p,
      p\<lparr>pendingTabsRequests := enqueue (nextPromise p) (pendingTabsRequests p),
        nextPromise := Suc (nextPromise p)\<rparr>,
      [RootLog LogDebug ''Fetching tabs'', SendRequest ''root'' ''listTabs''])"

text \<open>The first \<^verbatim>\<open>forEach\<close>: proxies are re-used, new ones are announced.\<close>

fun convertTabs :: "TabMap \<Rightarrow> Tab list \<Rightarrow> TabMap \<Rightarrow> TabMap \<times> RootEffect list" where
  "convertTabs old [] currentTabs = (currentTabs, [])"
| "convertTabs old (t # ts) currentTabs =
     (let (tabActor, effs) =
            (case mapGet old (tab_actor t) of
               Some existing \<Rightarrow> (existing, [])
             | None \<Rightarrow>
                 (let created = \<lparr> tabActor_name = tab_actor t, tabActor_title = tab_title t,
                                   tabActor_url = tab_url t \<rparr>
                  in (created,
                      [RootLog LogDebug (''Tab '' @ tab_actor t @ '' opened''), EmitTabOpened created])));
          (m, rest) = convertTabs old ts (mapSet (tab_actor t) tabActor currentTabs)
      in (m, effs @ rest))"

text \<open>The second \<^verbatim>\<open>forEach\<close>: tabs that have disappeared.\<close>

definition closedTabs :: "TabMap \<Rightarrow> TabMap \<Rightarrow> RootEffect list" where
  "closedTabs old currentTabs =
     concat (map (\<lambda>(k, tabActor).
                    if \<not> mapHas currentTabs (tabActor_name tabActor)
                    then [RootLog LogDebug (''Tab '' @ tabActor_name tabActor @ '' closed''),
                          EmitTabClosed tabActor]
                    else [])
                 old)"

definition receiveResponse :: "Response \<Rightarrow> RootActorProxy \<Rightarrow> RootActorProxy \<times> RootEffect list" where
  "receiveResponse response p =
     (if truthyString (applicationType response) then (p, [EmitInit response])
      else
        (case tabs response of
           Some ts \<Rightarrow>
             (if length ts = 0 then
                (p, [RootLog LogInfo ''Received 0 tabs - will retry in 100ms'',
                     SetTimeout 100 (SendRequest ''root'' ''listTabs'')])
              else
                (case convertTabs (root_tabs p) ts [] of
                   (currentTabs, effs1) \<Rightarrow>
                     (case resolveOne currentTabs (pendingTabsRequests p) of
                        (pending, effs3) \<Rightarrow>
                          (p\<lparr>root_tabs := currentTabs, pendingTabsRequests := pending\<rparr>,
                           [RootLog LogDebug ''Received tabs''] @ effs1 @
                           closedTabs (root_tabs p) currentTabs @ effs3))))
         | None \<Rightarrow>
             (if response_type response = Some ''tabListChanged''
              then (p, [RootLog LogDebug ''Received tabListChanged event'', EmitTabListChanged])
              else (p, [RootLog LogWarn ''Unknown message from RootActor'']))))"

text \<open>What the proxy is asked to do and what it receives, in order.\<close>

datatype RootInput = CallFetchTabs | Receive Response

fun rootStep :: "RootInput \<Rightarrow> RootActorProxy \<Rightarrow> RootActorProxy \<times> RootEffect list" where
  "rootStep CallFetchTabs p = (case fetchTabs p of (req, p', effs) \<Rightarrow> (p', effs))"
| "rootStep (Receive response) p = receiveResponse response p"

fun rootRun :: "RootInput list \<Rightarrow> RootActorProxy \<Rightarrow> RootActorProxy \<times> RootEffect list" where
  "rootRun [] p = (p, [])"
| "rootRun (i # is) p =
     (case rootStep i p of
        (p', effs) \<Rightarrow> (case rootRun is p' of (p'', rest) \<Rightarrow> (p'', effs @ rest)))"

definition resolved :: "RootEffect list \<Rightarrow> (nat \<times> TabMap) list" where
  "resolved effs = concat (map (\<lambda>e. case e of ResolvePromise r m \<Rightarrow> [(r, m)] | _ \<Rightarrow> []) effs)"

section \<open>Example inputs\<close>

definition thread1 :: ThreadAdapter where
  "thread1 = \<lparr> thread_id = 1, thread_type = tab, name = ''Tab a.html'',
     targetActorName = ''target1'', threadActorName = ''thread1'' \<rparr>"

definition plainEnv :: Env where
  "plainEnv = \<lparr> applySourceMapToFrame = (\<lambda>f. f), fetchAllStackFrames = (\<lambda>t. Some []) \<rparr>"

definition frameAt :: "string \<Rightarrow> int \<Rightarrow> int \<Rightarrow> Frame" where
  "frameAt a l c = \<lparr> frame_where = \<lparr> line = l, column = c, actor = a \<rparr> \<rparr>"

definition plainSource :: SourceAdapter where
  "plainSource = \<lparr> isBlackBoxed = False, path = Some ''/a.js'', introductionType = None \<rparr>"

definition pausedAt :: "Frame \<Rightarrow> ThreadPausedReason option \<Rightarrow> ThreadStateEvent" where
  "pausedAt f w = \<lparr> state = ''paused'', event_frame = Some f, why = w \<rparr>"

definition oneSource :: Session where
  "oneSource = newSession\<lparr>sources := [''source1'' \<mapsto> plainSource]\<rparr>"

definition errorReason :: ThreadPausedReason where
  "errorReason = \<lparr> reason_type = ''exception'', actors = None,
     exception = Some (ComplexGrip ''object'' ''TypeError''
                  (Some \<lparr> kind = ''Error'', message = ''x is undefined'' \<rparr>)) \<rparr>"

definition debuggerStatementReason :: ThreadPausedReason where
  "debuggerStatementReason =
     \<lparr> reason_type = ''debuggerStatement'', actors = None, exception = None \<rparr>"

definition skippedSource :: SourceAdapter where
  "skippedSource = \<lparr> isBlackBoxed = True, path = Some ''/lib/a.js'', introductionType = None \<rparr>"

definition skippedSession :: Session where
  "skippedSession = newSession\<lparr>sources := [''source1'' \<mapsto> skippedSource]\<rparr>"

definition evalSource :: SourceAdapter where
  "evalSource = \<lparr> isBlackBoxed = False, path = None, introductionType = Some ''debugger eval'' \<rparr>"

definition evalSession :: Session where
  "evalSession = newSession\<lparr>sources := [''source1'' \<mapsto> plainSource, ''evalSource'' \<mapsto> evalSource]\<rparr>"

definition evalEnv :: Env where
  "evalEnv = \<lparr> applySourceMapToFrame = (\<lambda>f. f),
               fetchAllStackFrames = (\<lambda>t. Some [\<lparr> frame = frameAt ''source1'' 3 0 \<rparr>,
                                                \<lparr> frame = frameAt ''evalSource'' 1 0 \<rparr>]) \<rparr>"



definition limitedBreakpoint :: BreakpointInfo where
  "limitedBreakpoint = \<lparr> actualLocation = Some \<lparr> line = 3, column = 0 \<rparr>,
                          hitLimit = Some 3, hitCount = 0 \<rparr>"

definition limitSession :: Session where
  "limitSession = oneSource\<lparr>breakpoints := [''/a.js'' \<mapsto> [limitedBreakpoint]]\<rparr>"

definition breakpointReason :: ThreadPausedReason where
  "breakpointReason = \<lparr> reason_type = ''breakpoint'', actors = Some [''breakpoint1''], exception = None \<rparr>"

definition breakpointHit :: ThreadStateEvent where
  "breakpointHit = pausedAt (frameAt ''source1'' 3 0) (Some breakpointReason)"

definition bareBreakpointReason :: ThreadPausedReason where
  "bareBreakpointReason = \<lparr> reason_type = ''breakpoint'', actors = None, exception = None \<rparr>"







definition newDescriptorProxy :: "WatcherActorProxy BaseActorProxy" where
  "newDescriptorProxy = \<lparr> proxy_name = ''tabDescriptor1'', cachedResponses = Map.empty, wire = [] \<rparr>"

definition watcherResponse :: GetWatcherResponse where
  "watcherResponse = \<lparr> response_actor = ''watcher1'', content_script = True \<rparr>"

definition watcher1 :: WatcherActorProxy where
  "watcher1 = \<lparr> watcher_name = ''watcher1'', supportsContentScriptTargets = True \<rparr>"

definition cachedDescriptorProxy :: "WatcherActorProxy BaseActorProxy" where
  "cachedDescriptorProxy = \<lparr> proxy_name = ''tabDescriptor1'',
      cachedResponses = [''getWatcher'' \<mapsto> watcher1], wire = [getWatcherRequest] \<rparr>"

definition newRootProxy :: RootActorProxy where
  "newRootProxy = \<lparr> root_tabs = [], pendingTabsRequests = [], nextPromise = 0 \<rparr>"

definition noTabsResponse :: Response where
  "noTabsResponse = \<lparr> applicationType = None, tabs = Some [], response_type = None \<rparr>"

definition oneTabResponse :: Response where
  "oneTabResponse = \<lparr> applicationType = None,
      tabs = Some [\<lparr> tab_actor = ''tab1'', tab_title = ''Start'', tab_url = ''about:home'' \<rparr>],
      response_type = None \<rparr>"




lemmas paused_defs = onThreadState_def onPaused_def pausedGates_def hitCountGate_def
  debuggerEvalGate_def isBreakpointStop_def isExceptionStop_def sendStoppedEvent_def
  stoppedEvent_def exceptionText_def effects_def sessionAfter_def outcome_def truthyString_def
  truthyNumber_def matchesLocation_def

section \<open>What a pause sends to the editor\<close>

lemma sentEvents_append: "sentEvents (xs @ ys) = sentEvents xs @ sentEvents ys"
  by (simp add: sentEvents_def)

lemma sentEvents_mem: "SendEvent e \<in> set effs \<longleftrightarrow> e \<in> set (sentEvents effs)"
  by (induction effs) (auto simp: sentEvents_def split: Effect.splits)

lemma sentEvents_pausedGates: "sentEvents (snd (snd (pausedGates s ta ev loc))) = []"
  by (auto simp: pausedGates_def hitCountGate_def sentEvents_def Let_def split: option.splits)

lemma sentEvents_debuggerEvalGate: "sentEvents (snd (debuggerEvalGate env s ta ev)) = []"
  by (auto simp: debuggerEvalGate_def sentEvents_def Let_def split: option.splits)

lemma sentEvents_onPaused:
  "sentEvents (effects (onPaused env ta ev s)) = [] \<or>
   sentEvents (effects (onPaused env ta ev s)) = [StoppedEvent (stoppedEvent ta (why ev))]"
proof (cases "event_frame ev")
  case None
  then show ?thesis by (simp add: onPaused_def effects_def sentEvents_def)
next
  case (Some f)
  obtain r s1 e1 where g:
    "pausedGates s ta ev (frame_where (applySourceMapToFrame env f)) = (r, s1, e1)"
    by (cases "pausedGates s ta ev (frame_where (applySourceMapToFrame env f))") auto
  obtain g2 e2 where d: "debuggerEvalGate env s1 ta ev = (g2, e2)"
    by (cases "debuggerEvalGate env s1 ta ev") auto
  have e1: "sentEvents e1 = []"
    using sentEvents_pausedGates[of s ta ev "frame_where (applySourceMapToFrame env f)"] g by simp
  have e2: "sentEvents e2 = []"
    using sentEvents_debuggerEvalGate[of env s1 ta ev] d by simp
  show ?thesis using Some g d e1 e2
    by (cases g2)
       (auto simp: onPaused_def effects_def Let_def sentEvents_append sendStoppedEvent_def,
        auto simp: sentEvents_def)
qed

text \<open>
  Claim C5, as amended. Every event that the handler of a paused thread state sends is
  the stopped event of \<^verbatim>\<open>sendStoppedEvent\<close>: \<^verbatim>\<open>allThreadsStopped\<close> is false, the thread id
  is the adapter's, and the reason is the engine's reason type passed on unchanged
  (so \<^verbatim>\<open>exception\<close>, \<^verbatim>\<open>breakpoint\<close> and \<^verbatim>\<open>debuggerStatement\<close> stay as they are), or
  \<^verbatim>\<open>interrupt\<close> when no reason is given. The text is a non-empty exception string itself;
  for an object-typed exception it is the class followed by the message of an
  \<^verbatim>\<open>Error\<close> preview, and the class alone without such a preview.
\<close>

theorem stopped_event_classification:
  assumes "state ev = ''paused''"
      and "SendEvent e \<in> set (effects (onThreadState env ta ev s))"
  shows "e = StoppedEvent (stoppedEvent ta (why ev)) \<and>
         allThreadsStopped (stoppedEvent ta (why ev)) = Some False \<and>
         threadId (stoppedEvent ta (why ev)) = thread_id ta \<and>
         (why ev = None \<longrightarrow> reason (stoppedEvent ta (why ev)) = ''interrupt'') \<and>
         (\<forall>r. why ev = Some r \<longrightarrow> reason (stoppedEvent ta (why ev)) = reason_type r) \<and>
         (\<forall>r x. why ev = Some r \<and> exception r = Some (StringGrip x) \<and> x \<noteq> [] \<longrightarrow>
            stopped_text (stoppedEvent ta (why ev)) = Some x) \<and>
         (\<forall>r c pv. why ev = Some r \<and> exception r = Some (ComplexGrip ''object'' c (Some pv)) \<and>
            kind pv = ''Error'' \<longrightarrow>
            stopped_text (stoppedEvent ta (why ev)) = Some (c @ '': '' @ message pv)) \<and>
         (\<forall>r c p. why ev = Some r \<and> exception r = Some (ComplexGrip ''object'' c p) \<and>
            (\<forall>pv. p = Some pv \<longrightarrow> kind pv \<noteq> ''Error'') \<longrightarrow>
            stopped_text (stoppedEvent ta (why ev)) = Some c)"
proof -
  have "e \<in> set (sentEvents (effects (onPaused env ta ev s)))"
    using assms by (simp add: onThreadState_def sentEvents_mem)
  then have "e = StoppedEvent (stoppedEvent ta (why ev))"
    using sentEvents_onPaused[of env ta ev s] by auto
  moreover have "allThreadsStopped (stoppedEvent ta (why ev)) = Some False"
    by (simp add: stoppedEvent_def)
  moreover have "threadId (stoppedEvent ta (why ev)) = thread_id ta"
    by (simp add: stoppedEvent_def)
  moreover have "why ev = None \<longrightarrow> reason (stoppedEvent ta (why ev)) = ''interrupt''"
    by (simp add: stoppedEvent_def)
  moreover have "\<forall>r. why ev = Some r \<longrightarrow> reason (stoppedEvent ta (why ev)) = reason_type r"
    by (simp add: stoppedEvent_def)
  moreover have "\<forall>r x. why ev = Some r \<and> exception r = Some (StringGrip x) \<and> x \<noteq> [] \<longrightarrow>
            stopped_text (stoppedEvent ta (why ev)) = Some x"
    by (simp add: stoppedEvent_def exceptionText_def)
  moreover have "\<forall>r c pv. why ev = Some r \<and>
            exception r = Some (ComplexGrip ''object'' c (Some pv)) \<and> kind pv = ''Error'' \<longrightarrow>
            stopped_text (stoppedEvent ta (why ev)) = Some (c @ '': '' @ message pv)"
    by (simp add: stoppedEvent_def exceptionText_def)
  moreover have "\<forall>r c p. why ev = Some r \<and> exception r = Some (ComplexGrip ''object'' c p) \<and>
            (\<forall>pv. p = Some pv \<longrightarrow> kind pv \<noteq> ''Error'') \<longrightarrow>
            stopped_text (stoppedEvent ta (why ev)) = Some c"
    by (auto simp: stoppedEvent_def exceptionText_def split: option.splits)
  ultimately show ?thesis by blast
qed

text \<open>
  The theorem at a pause on an exception whose grip is an object with an \<^verbatim>\<open>Error\<close>
  preview.
\<close>

theorem stopped_event_classification_witness:
  "SendEvent (StoppedEvent (stoppedEvent thread1 (Some errorReason))) \<in>
     set (effects (onThreadState plainEnv thread1
            (pausedAt (frameAt ''source1'' 3 0) (Some errorReason)) oneSource)) \<and>
   reason (stoppedEvent thread1 (Some errorReason)) = ''exception'' \<and>
   stopped_text (stoppedEvent thread1 (Some errorReason)) = Some ''TypeError: x is undefined'' \<and>
   allThreadsStopped (stoppedEvent thread1 (Some errorReason)) = Some False"
proof -
  have st: "state (pausedAt (frameAt ''source1'' 3 0) (Some errorReason)) = ''paused''"
    by (simp add: pausedAt_def)
  have sent: "SendEvent (StoppedEvent (stoppedEvent thread1 (Some errorReason))) \<in>
     set (effects (onThreadState plainEnv thread1
            (pausedAt (frameAt ''source1'' 3 0) (Some errorReason)) oneSource))"
    by (simp add: thread1_def plainEnv_def frameAt_def plainSource_def pausedAt_def oneSource_def
          newSession_def errorReason_def paused_defs)
  have w: "why (pausedAt (frameAt ''source1'' 3 0) (Some errorReason)) = Some errorReason"
    by (simp add: pausedAt_def)
  have ex: "exception errorReason = Some (ComplexGrip ''object'' ''TypeError''
                  (Some \<lparr> kind = ''Error'', message = ''x is undefined'' \<rparr>))"
    by (simp add: errorReason_def)
  have rt: "reason_type errorReason = ''exception''"
    by (simp add: errorReason_def)
  from stopped_event_classification[OF st sent] w ex rt sent show ?thesis
    by simp
qed

text \<open>
  The claim as it was stated fails for a pause at a \<^verbatim>\<open>debugger\<close> statement: the reason of
  the stopped event is the engine's \<^verbatim>\<open>debuggerStatement\<close>, not \<^verbatim>\<open>debugger statement\<close>.
\<close>

theorem debuggerStatement_reason_counterexample:
  "stoppedEvents (effects (onThreadState plainEnv thread1
       (pausedAt (frameAt ''source1'' 3 0) (Some debuggerStatementReason)) oneSource)) =
     [\<lparr> reason = ''debuggerStatement'', threadId = 1, stopped_text = None,
        allThreadsStopped = Some False \<rparr>] \<and>
   map reason (stoppedEvents (effects (onThreadState plainEnv thread1
       (pausedAt (frameAt ''source1'' 3 0) (Some debuggerStatementReason)) oneSource))) \<noteq>
     [''debugger statement'']"
  by (simp add: thread1_def plainEnv_def frameAt_def plainSource_def pausedAt_def oneSource_def
          newSession_def debuggerStatementReason_def paused_defs
        stoppedEvents_def)

section \<open>The blackbox gate\<close>

text \<open>
  Claim C2. When the source adapter of the pausing frame (after the source map has been
  applied to the frame) is blackboxed, the handler of a paused thread state resumes the
  thread and does nothing else: no event is sent to the editor, the session is unchanged.
\<close>

theorem blackboxed_pause_is_resumed:
  assumes "state ev = ''paused''"
      and "event_frame ev = Some f"
      and "sources s (actor (frame_where (applySourceMapToFrame env f))) = Some sourceAdapter"
      and "isBlackBoxed sourceAdapter"
  shows "onThreadState env ta ev s = (Fulfilled, s, [Resume (thread_id ta)]) \<and>
         resumes (effects (onThreadState env ta ev s)) = [thread_id ta] \<and>
         sentEvents (effects (onThreadState env ta ev s)) = []"
  using assms
  by (simp add: onThreadState_def onPaused_def pausedGates_def effects_def resumes_def sentEvents_def)

text \<open>The theorem at a pause in a skipped library file.\<close>

theorem blackboxed_pause_is_resumed_witness:
  "onThreadState plainEnv thread1 (pausedAt (frameAt ''source1'' 3 0) (Some errorReason)) skippedSession =
     (Fulfilled, skippedSession, [Resume 1]) \<and>
   sentEvents (effects (onThreadState plainEnv thread1
       (pausedAt (frameAt ''source1'' 3 0) (Some errorReason)) skippedSession)) = []"
proof -
  have st: "state (pausedAt (frameAt ''source1'' 3 0) (Some errorReason)) = ''paused''"
    by (simp add: pausedAt_def)
  have fr: "event_frame (pausedAt (frameAt ''source1'' 3 0) (Some errorReason)) = Some (frameAt ''source1'' 3 0)"
    by (simp add: pausedAt_def)
  have src: "sources skippedSession (actor (frame_where (applySourceMapToFrame plainEnv (frameAt ''source1'' 3 0)))) = Some skippedSource"
    by (simp add: skippedSession_def plainEnv_def frameAt_def)
  have bb: "isBlackBoxed skippedSource" by (simp add: skippedSource_def)
  have tid: "thread_id thread1 = 1" by (simp add: thread1_def)
  from blackboxed_pause_is_resumed[OF st fr src bb, of thread1] tid show ?thesis
    by (simp add: effects_def sentEvents_def)
qed

section \<open>The debugger-eval exception gate\<close>

lemma pausedGates_exception:
  assumes "isExceptionStop ev"
  shows "pausedGates s ta ev loc = (True, s, [Resume (thread_id ta)]) \<or>
         (\<exists>effs. pausedGates s ta ev loc = (False, s, effs) \<and> resumes effs = [] \<and> sentEvents effs = [])"
  using assms
  by (auto simp: pausedGates_def isExceptionStop_def isBreakpointStop_def resumes_def sentEvents_def
           split: option.splits)

text \<open>
  Claim C4. When the reason of a pause is an exception and the last frame of the fetched
  stack has a source with introduction type \<^verbatim>\<open>debugger eval\<close>, the handler is fulfilled,
  the thread is resumed once and no event is sent to the editor. This holds whether the
  blackbox gate or the exception gate resumes the thread.
\<close>

theorem debugger_eval_exception_is_resumed:
  assumes "state ev = ''paused''"
      and "event_frame ev = Some f"
      and "why ev = Some w" and "reason_type w = ''exception''"
      and "fetchAllStackFrames env (thread_id ta) = Some frames" and "frames \<noteq> []"
      and "sources s (actor (frame_where (frame (last frames)))) = Some sourceAdapter"
      and "introductionType sourceAdapter = Some ''debugger eval''"
  shows "outcome (onThreadState env ta ev s) = Fulfilled \<and>
         resumes (effects (onThreadState env ta ev s)) = [thread_id ta] \<and>
         sentEvents (effects (onThreadState env ta ev s)) = []"
proof -
  have ex: "isExceptionStop ev" using assms by (simp add: isExceptionStop_def)
  have gate: "debuggerEvalGate env s ta ev =
      (Returned, [FetchAllStackFrames (thread_id ta), Resume (thread_id ta)])"
    using assms ex by (simp add: debuggerEvalGate_def last_conv_nth)
  from pausedGates_exception[OF ex, of s ta "frame_where (applySourceMapToFrame env f)"]
  show ?thesis
  proof
    assume "pausedGates s ta ev (frame_where (applySourceMapToFrame env f)) = (True, s, [Resume (thread_id ta)])"
    then show ?thesis using assms
      by (simp add: onThreadState_def onPaused_def outcome_def effects_def resumes_def sentEvents_def)
  next
    assume "\<exists>effs. pausedGates s ta ev (frame_where (applySourceMapToFrame env f)) = (False, s, effs) \<and>
        resumes effs = [] \<and> sentEvents effs = []"
    then obtain effs where g: "pausedGates s ta ev (frame_where (applySourceMapToFrame env f)) = (False, s, effs)"
      and r: "resumes effs = []" and e: "sentEvents effs = []" by blast
    have ra: "\<And>xs ys. resumes (xs @ ys) = resumes xs @ resumes ys" by (simp add: resumes_def)
    show ?thesis using assms g gate r e
      by (simp add: onThreadState_def onPaused_def outcome_def effects_def ra sentEvents_append)
         (simp add: resumes_def sentEvents_def)
  qed
qed

text \<open>The theorem at an exception thrown by code evaluated from the debug console.\<close>

theorem debugger_eval_exception_is_resumed_witness:
  "outcome (onThreadState evalEnv thread1 (pausedAt (frameAt ''source1'' 3 0) (Some errorReason)) evalSession) = Fulfilled \<and>
   resumes (effects (onThreadState evalEnv thread1
       (pausedAt (frameAt ''source1'' 3 0) (Some errorReason)) evalSession)) = [1] \<and>
   sentEvents (effects (onThreadState evalEnv thread1
       (pausedAt (frameAt ''source1'' 3 0) (Some errorReason)) evalSession)) = []"
proof -
  have st: "state (pausedAt (frameAt ''source1'' 3 0) (Some errorReason)) = ''paused''"
    by (simp add: pausedAt_def)
  have fr: "event_frame (pausedAt (frameAt ''source1'' 3 0) (Some errorReason)) = Some (frameAt ''source1'' 3 0)"
    by (simp add: pausedAt_def)
  have w: "why (pausedAt (frameAt ''source1'' 3 0) (Some errorReason)) = Some errorReason"
    by (simp add: pausedAt_def)
  have rt: "reason_type errorReason = ''exception''" by (simp add: errorReason_def)
  have fs: "fetchAllStackFrames evalEnv (thread_id thread1) =
      Some [\<lparr> frame = frameAt ''source1'' 3 0 \<rparr>, \<lparr> frame = frameAt ''evalSource'' 1 0 \<rparr>]"
    by (simp add: evalEnv_def)
  have ne: "[\<lparr> frame = frameAt ''source1'' 3 0 \<rparr>, \<lparr> frame = frameAt ''evalSource'' 1 0 \<rparr>] \<noteq> []"
    by simp
  have src: "sources evalSession (actor (frame_where (frame (last
       [\<lparr> frame = frameAt ''source1'' 3 0 \<rparr>, \<lparr> frame = frameAt ''evalSource'' 1 0 \<rparr>])))) = Some evalSource"
    by (simp add: evalSession_def frameAt_def)
  have it: "introductionType evalSource = Some ''debugger eval''" by (simp add: evalSource_def)
  have tid: "thread_id thread1 = 1" by (simp add: thread1_def)
  from debugger_eval_exception_is_resumed[OF st fr w rt fs ne src it] tid show ?thesis
    by simp
qed

section \<open>Resuming\<close>



section \<open>Hit-count breakpoints\<close>

lemma findIndex_Some:
  "findIndex P xs = Some i \<Longrightarrow> i < length xs \<and> P (xs ! i)"
proof (induction xs arbitrary: i)
  case Nil
  then show ?case by simp
next
  case (Cons x xs)
  then show ?case by (cases "P x") (auto split: option.splits)
qed

lemma findIndex_update:
  "findIndex P xs = Some i \<Longrightarrow> P y \<Longrightarrow> findIndex P (xs[i := y]) = Some i"
proof (induction xs arbitrary: i)
  case Nil
  then show ?case by simp
next
  case (Cons x xs)
  then show ?case by (cases "P x") (auto split: option.splits)
qed
lemma armed_counted:
  assumes "armed s loc p i N c"
  shows "armed (counted s p i) loc p i N (c + 1)"
proof -
  from assms obtain sa bps where h: "sources s (actor loc) = Some sa" "\<not> isBlackBoxed sa"
    "path sa = Some p" "p \<noteq> []" "breakpoints s p = Some bps"
    "findIndex (matchesLocation loc) bps = Some i" "hitLimit (bps ! i) = Some N" "N \<noteq> 0"
    "hitCount (bps ! i) = c"
    unfolding armed_def by blast
  from findIndex_Some[OF h(6)] have i: "i < length bps" and m: "matchesLocation loc (bps ! i)" by auto
  have m': "matchesLocation loc ((bps ! i)\<lparr>hitCount := c + 1\<rparr>)"
    using m by (simp add: matchesLocation_def)
  have "findIndex (matchesLocation loc) (bps[i := (bps ! i)\<lparr>hitCount := c + 1\<rparr>]) = Some i"
    by (rule findIndex_update[OF h(6) m'])
  then show ?thesis using h i
    unfolding armed_def counted_def by simp
qed

lemma pause_suppressed:
  assumes "breakpointPause env ev loc" and "armed s loc p i N c" and "c + 1 < N"
  shows "onThreadState env ta ev s = (Fulfilled, counted s p i, [Resume (thread_id ta)])"
proof -
  from assms(2) obtain sa bps where h: "sources s (actor loc) = Some sa" "\<not> isBlackBoxed sa"
    "path sa = Some p" "p \<noteq> []" "breakpoints s p = Some bps"
    "findIndex (matchesLocation loc) bps = Some i" "hitLimit (bps ! i) = Some N" "N \<noteq> 0"
    "hitCount (bps ! i) = c"
    unfolding armed_def by blast
  from assms(1) obtain f w as where e: "state ev = ''paused''" "event_frame ev = Some f"
    "frame_where (applySourceMapToFrame env f) = loc" "why ev = Some w"
    "reason_type w = ''breakpoint''" "actors w = Some as" "as \<noteq> []"
    unfolding breakpointPause_def by blast
  have hc: "hitCountGate s ta loc p = (True, counted s p i, [Resume (thread_id ta)])"
    using h assms(3) by (simp add: hitCountGate_def truthyNumber_def counted_def Let_def)
  have pg: "pausedGates s ta ev loc = (True, counted s p i, [Resume (thread_id ta)])"
    using h e hc by (simp add: pausedGates_def isBreakpointStop_def truthyString_def)
  show ?thesis using e pg by (simp add: onThreadState_def onPaused_def)
qed

lemma pause_surfaced:
  assumes "breakpointPause env ev loc" and "armed s loc p i N c" and "\<not> c + 1 < N"
  shows "onThreadState env ta ev s =
           (Fulfilled,
            (counted s p i)\<lparr>threadPausedReason := (threadPausedReason s)(thread_id ta := why ev)\<rparr>,
            surfaced ta ev)"
proof -
  from assms(2) obtain sa bps where h: "sources s (actor loc) = Some sa" "\<not> isBlackBoxed sa"
    "path sa = Some p" "p \<noteq> []" "breakpoints s p = Some bps"
    "findIndex (matchesLocation loc) bps = Some i" "hitLimit (bps ! i) = Some N" "N \<noteq> 0"
    "hitCount (bps ! i) = c"
    unfolding armed_def by blast
  from assms(1) obtain f w as where e: "state ev = ''paused''" "event_frame ev = Some f"
    "frame_where (applySourceMapToFrame env f) = loc" "why ev = Some w"
    "reason_type w = ''breakpoint''" "actors w = Some as" "as \<noteq> []"
    unfolding breakpointPause_def by blast
  have hc: "hitCountGate s ta loc p = (False, counted s p i, [])"
    using h assms(3) by (simp add: hitCountGate_def truthyNumber_def counted_def Let_def)
  have pg: "pausedGates s ta ev loc = (False, counted s p i, [])"
    using h e hc by (simp add: pausedGates_def isBreakpointStop_def truthyString_def)
  have dg: "debuggerEvalGate env (counted s p i) ta ev = (Continue, [])"
    using e by (simp add: debuggerEvalGate_def isExceptionStop_def)
  show ?thesis using e pg dg
    by (simp add: onThreadState_def onPaused_def surfaced_def sendStoppedEvent_def counted_def)
qed

lemma handleAll_suppressed:
  assumes "breakpointPause env ev loc"
  shows "armed s loc p i N c \<Longrightarrow> c + int k < N \<Longrightarrow>
         snd (handleAll env ta (replicate k ev) s) = replicate k [Resume (thread_id ta)] \<and>
         armed (fst (handleAll env ta (replicate k ev) s)) loc p i N (c + int k)"
proof (induction k arbitrary: s c)
  case 0
  then show ?case by simp
next
  case (Suc k)
  have lt: "c + 1 < N" using Suc.prems by simp
  have step: "onThreadState env ta ev s = (Fulfilled, counted s p i, [Resume (thread_id ta)])"
    by (rule pause_suppressed[OF assms Suc.prems(1) lt])
  have a': "armed (counted s p i) loc p i N (c + 1)" by (rule armed_counted[OF Suc.prems(1)])
  have "c + 1 + int k < N" using Suc.prems by simp
  from Suc.IH[OF a' this] show ?case using step
    by (simp add: split_beta add.assoc)
qed

lemma handleAll_append:
  "handleAll env ta (xs @ ys) s =
     (fst (handleAll env ta ys (fst (handleAll env ta xs s))),
      snd (handleAll env ta xs s) @ snd (handleAll env ta ys (fst (handleAll env ta xs s))))"
  by (induction xs arbitrary: s) (auto split: prod.splits)


lemma armed_hitCountOf: "armed s loc p i N c \<Longrightarrow> hitCountOf s p i = Some c"
  by (auto simp: armed_def hitCountOf_def)

lemma hitCountOf_counted:
  "armed s loc p i N c \<Longrightarrow>
   hitCountOf ((counted s p i)\<lparr>threadPausedReason := r\<rparr>) p i = Some (c + 1)"
  using armed_hitCountOf[OF armed_counted, of s loc p i N c]
  by (simp add: hitCountOf_def)

text \<open>
  Claim C1, as amended. Let a breakpoint with hit limit \<open>N \<ge> 1\<close> and hit count 0 be the
  first breakpoint of its path whose actual location has the line and column of the
  pause, in a source that is found, is not blackboxed and has that path. Of \<open>N\<close> pauses
  there with reason \<^verbatim>\<open>breakpoint\<close> and a non-empty list of breakpoint actors, each of the
  first \<open>N - 1\<close> only resumes the thread, and the \<open>N\<close>-th is surfaced as a stopped event;
  after \<open>k\<close> of them the hit count is \<open>k\<close>.
\<close>

theorem hit_count_breakpoint:
  assumes "state ev = ''paused''" and "event_frame ev = Some f"
      and "frame_where (applySourceMapToFrame env f) = loc"
      and "why ev = Some w" and "reason_type w = ''breakpoint''"
      and "actors w = Some as" and "as \<noteq> []"
      and "sources s (actor loc) = Some sa" and "\<not> isBlackBoxed sa"
      and "path sa = Some p" and "p \<noteq> []"
      and "breakpoints s p = Some bps"
      and "findIndex (matchesLocation loc) bps = Some i"
      and "hitLimit (bps ! i) = Some N" and "0 < N" and "hitCount (bps ! i) = 0"
  shows "snd (handleAll env ta (replicate (nat N) ev) s) =
           replicate (nat N - 1) [Resume (thread_id ta)] @
           [[FetchAllStackFrames (thread_id ta),
             Log LogInfo (pausedMessage ta ev),
             SendEvent (StoppedEvent (stoppedEvent ta (why ev)))]] \<and>
         (\<forall>k. k \<le> nat N \<longrightarrow>
            hitCountOf (fst (handleAll env ta (replicate k ev) s)) p i = Some (int k))"
proof -
  have bp: "breakpointPause env ev loc"
    using assms unfolding breakpointPause_def by blast
  have a0: "armed s loc p i N 0"
    using assms unfolding armed_def by auto
  have sup: "\<And>k. int k < N \<Longrightarrow>
      snd (handleAll env ta (replicate k ev) s) = replicate k [Resume (thread_id ta)] \<and>
      armed (fst (handleAll env ta (replicate k ev) s)) loc p i N (int k)"
    using handleAll_suppressed[OF bp a0, of _ ta] by simp
  define m where "m = nat N - 1"
  have mN: "int m < N" "int m + 1 = N" "nat N = Suc m" using assms(15) by (simp_all add: m_def)
  define s1 where "s1 = fst (handleAll env ta (replicate m ev) s)"
  have e1: "snd (handleAll env ta (replicate m ev) s) = replicate m [Resume (thread_id ta)]"
    and a1: "armed s1 loc p i N (int m)"
    using sup[OF mN(1)] by (simp_all add: s1_def)
  have nlt: "\<not> int m + 1 < N" using mN by simp
  have last: "onThreadState env ta ev s1 =
           (Fulfilled,
            (counted s1 p i)\<lparr>threadPausedReason := (threadPausedReason s1)(thread_id ta := why ev)\<rparr>,
            surfaced ta ev)"
    by (rule pause_surfaced[OF bp a1 nlt])
  have rep: "replicate (nat N) ev = replicate m ev @ [ev]"
    using mN(3) by (simp add: replicate_append_same)
  have effs: "snd (handleAll env ta (replicate (nat N) ev) s) =
      replicate m [Resume (thread_id ta)] @ [surfaced ta ev]"
    unfolding rep handleAll_append using e1 last by (simp add: s1_def)
  have fin: "hitCountOf (fst (handleAll env ta (replicate (nat N) ev) s)) p i = Some N"
    unfolding rep handleAll_append using last hitCountOf_counted[OF a1] mN(2)
    by (simp add: s1_def)
  have counts: "\<forall>k. k \<le> nat N \<longrightarrow>
            hitCountOf (fst (handleAll env ta (replicate k ev) s)) p i = Some (int k)"
  proof (intro allI impI)
    fix k assume k: "k \<le> nat N"
    show "hitCountOf (fst (handleAll env ta (replicate k ev) s)) p i = Some (int k)"
    proof (cases "k = nat N")
      case True
      then show ?thesis using fin assms(15) by simp
    next
      case False
      then have "int k < N" using k by linarith
      from sup[OF this] show ?thesis by (blast intro: armed_hitCountOf)
    qed
  qed
  show ?thesis using effs counts by (simp add: m_def surfaced_def)
qed

text \<open>The theorem at a breakpoint with hit limit 3.\<close>

theorem hit_count_breakpoint_witness:
  "snd (handleAll plainEnv thread1 (replicate (nat 3) breakpointHit) limitSession) =
     replicate (nat 3 - 1) [Resume 1] @
     [[FetchAllStackFrames 1, Log LogInfo ''Thread thread1 paused , reason: breakpoint'',
       SendEvent (StoppedEvent (stoppedEvent thread1 (Some breakpointReason)))]] \<and>
   hitCountOf (fst (handleAll plainEnv thread1 (replicate 2 breakpointHit) limitSession)) ''/a.js'' 0 = Some 2"
proof -
  have h1: "state breakpointHit = ''paused''" by (simp add: breakpointHit_def pausedAt_def)
  have h2: "event_frame breakpointHit = Some (frameAt ''source1'' 3 0)"
    by (simp add: breakpointHit_def pausedAt_def)
  have h3: "frame_where (applySourceMapToFrame plainEnv (frameAt ''source1'' 3 0)) =
      \<lparr> line = 3, column = 0, actor = ''source1'' \<rparr>"
    by (simp add: plainEnv_def frameAt_def)
  have h4: "why breakpointHit = Some breakpointReason" by (simp add: breakpointHit_def pausedAt_def)
  have h5: "reason_type breakpointReason = ''breakpoint''" by (simp add: breakpointReason_def)
  have h6: "actors breakpointReason = Some [''breakpoint1'']" by (simp add: breakpointReason_def)
  have h7: "[''breakpoint1''] \<noteq> []" by simp
  have h8: "sources limitSession (actor \<lparr> line = 3, column = 0, actor = ''source1'' \<rparr>) = Some plainSource"
    by (simp add: limitSession_def oneSource_def)
  have h9: "\<not> isBlackBoxed plainSource" by (simp add: plainSource_def)
  have h10: "path plainSource = Some ''/a.js''" by (simp add: plainSource_def)
  have h11: "''/a.js'' \<noteq> []" by simp
  have h12: "breakpoints limitSession ''/a.js'' = Some [limitedBreakpoint]"
    by (simp add: limitSession_def)
  have h13: "findIndex (matchesLocation \<lparr> line = 3, column = 0, actor = ''source1'' \<rparr>) [limitedBreakpoint] = Some 0"
    by (simp add: matchesLocation_def limitedBreakpoint_def)
  have h14: "hitLimit ([limitedBreakpoint] ! 0) = Some 3" by (simp add: limitedBreakpoint_def)
  have h15: "(0::int) < 3" by simp
  have h16: "hitCount ([limitedBreakpoint] ! 0) = 0" by (simp add: limitedBreakpoint_def)
  have t: "thread_id thread1 = 1" "threadActorName thread1 = ''thread1''" by (simp_all add: thread1_def)
  from hit_count_breakpoint[OF h1 h2 h3 h4 h5 h6 h7 h8 h9 h10 h11 h12 h13 h14 h15 h16, of thread1]
  have "snd (handleAll plainEnv thread1 (replicate (nat 3) breakpointHit) limitSession) =
           replicate (nat 3 - 1) [Resume (thread_id thread1)] @
           [[FetchAllStackFrames (thread_id thread1),
             Log LogInfo (pausedMessage thread1 breakpointHit),
             SendEvent (StoppedEvent (stoppedEvent thread1 (why breakpointHit)))]]"
    and "\<forall>k. k \<le> nat 3 \<longrightarrow>
            hitCountOf (fst (handleAll plainEnv thread1 (replicate k breakpointHit) limitSession)) ''/a.js'' 0 = Some (int k)"
    by blast+
  moreover have "pausedMessage thread1 breakpointHit = ''Thread thread1 paused , reason: breakpoint''"
    using t h4 h5 by (simp add: pausedMessage_def)
  ultimately show ?thesis using t h4 by simp
qed

text \<open>
  The claim as it was stated fails for a pause with reason \<^verbatim>\<open>breakpoint\<close> that names no
  breakpoint actor: at the location of a breakpoint with hit limit 3 and hit count 0 the
  handler neither counts the hit nor resumes the thread, and surfaces the first pause.
\<close>

theorem hit_count_without_actors_counterexample:
  "stoppedEvents (effects (onThreadState plainEnv thread1
       (pausedAt (frameAt ''source1'' 3 0) (Some bareBreakpointReason)) limitSession)) =
     [\<lparr> reason = ''breakpoint'', threadId = 1, stopped_text = None,
        allThreadsStopped = Some False \<rparr>] \<and>
   resumes (effects (onThreadState plainEnv thread1
       (pausedAt (frameAt ''source1'' 3 0) (Some bareBreakpointReason)) limitSession)) = [] \<and>
   hitCountOf (sessionAfter (onThreadState plainEnv thread1
       (pausedAt (frameAt ''source1'' 3 0) (Some bareBreakpointReason)) limitSession)) ''/a.js'' 0 = Some 0"
  by (simp add: thread1_def plainEnv_def frameAt_def plainSource_def pausedAt_def oneSource_def
          newSession_def paused_defs stoppedEvents_def resumes_def hitCountOf_def
        limitSession_def limitedBreakpoint_def bareBreakpointReason_def)

section \<open>Terminating the browser\<close>












section \<open>Rejecting an engine that is too old\<close>



section \<open>The cached watcher request\<close>

text \<open>
  Claim C9. When a call of \<^verbatim>\<open>getWatcher\<close> on a descriptor proxy has yielded a watcher
  proxy, a second call on the same proxy yields the same watcher proxy and leaves the
  proxy as it is, so it writes no request, whatever the engine would answer; the first
  call has written at most the one \<^verbatim>\<open>getWatcher\<close> request. A value cached for the key is
  returned without any request.
\<close>

theorem getWatcher_cached:
  assumes "getWatcher answer1 p = (Inr watcher, p1)"
  shows "getWatcher answer2 p1 = (Inr watcher, p1) \<and>
         (wire p1 = wire p \<or> wire p1 = wire p @ [getWatcherRequest]) \<and>
         (\<forall>v a. cachedResponses p ''getWatcher'' = Some v \<longrightarrow> getWatcher a p = (Inr v, p))"
  using assms
  by (auto simp: getWatcher_def sendCachedRequest_def Let_def split: option.splits sum.splits)

text \<open>The theorem at a new descriptor proxy.\<close>

theorem getWatcher_cached_witness:
  "getWatcher (Inr watcherResponse) newDescriptorProxy = (Inr watcher1, cachedDescriptorProxy) \<and>
   getWatcher (Inl ''noSuchActor'') cachedDescriptorProxy = (Inr watcher1, cachedDescriptorProxy) \<and>
   wire cachedDescriptorProxy = wire newDescriptorProxy @ [getWatcherRequest]"
proof -
  have first: "getWatcher (Inr watcherResponse) newDescriptorProxy = (Inr watcher1, cachedDescriptorProxy)"
    by (simp add: getWatcher_def sendCachedRequest_def newDescriptorProxy_def watcherResponse_def
          watcher1_def cachedDescriptorProxy_def)
  have w: "wire cachedDescriptorProxy = wire newDescriptorProxy @ [getWatcherRequest]"
    by (simp add: cachedDescriptorProxy_def newDescriptorProxy_def)
  from getWatcher_cached[OF first, of "Inl ''noSuchActor''"] first w show ?thesis by simp
qed

section \<open>Fetching the tabs\<close>

lemma resolved_Nil: "resolved [] = []"
  by (simp add: resolved_def)

lemma resolved_Cons:
  "resolved (e # effs) = (case e of ResolvePromise r m \<Rightarrow> [(r, m)] | _ \<Rightarrow> []) @ resolved effs"
  by (simp add: resolved_def)

lemma resolved_append: "resolved (xs @ ys) = resolved xs @ resolved ys"
  by (simp add: resolved_def)

lemma mapSet_nonempty: "mapSet k v m \<noteq> []"
  by (cases m) auto

lemma convertTabs_Cons:
  "\<exists>tabActor effs.
     convertTabs old (t # ts) currentTabs =
       (fst (convertTabs old ts (mapSet (tab_actor t) tabActor currentTabs)),
        effs @ snd (convertTabs old ts (mapSet (tab_actor t) tabActor currentTabs))) \<and>
     resolved effs = []"
proof (cases "mapGet old (tab_actor t)")
  case None
  have "resolved [RootLog LogDebug (''Tab '' @ tab_actor t @ '' opened''),
          EmitTabOpened \<lparr> tabActor_name = tab_actor t, tabActor_title = tab_title t,
                           tabActor_url = tab_url t \<rparr>] = []"
    by (simp add: resolved_Nil resolved_Cons)
  moreover have "convertTabs old (t # ts) currentTabs =
       (fst (convertTabs old ts (mapSet (tab_actor t)
               \<lparr> tabActor_name = tab_actor t, tabActor_title = tab_title t,
                  tabActor_url = tab_url t \<rparr> currentTabs)),
        [RootLog LogDebug (''Tab '' @ tab_actor t @ '' opened''),
          EmitTabOpened \<lparr> tabActor_name = tab_actor t, tabActor_title = tab_title t,
                           tabActor_url = tab_url t \<rparr>] @
        snd (convertTabs old ts (mapSet (tab_actor t)
               \<lparr> tabActor_name = tab_actor t, tabActor_title = tab_title t,
                  tabActor_url = tab_url t \<rparr> currentTabs)))"
    using None by (simp add: Let_def split_beta)
  ultimately show ?thesis by blast
next
  case (Some existing)
  have "resolved [] = []" by (simp add: resolved_Nil)
  moreover have "convertTabs old (t # ts) currentTabs =
       (fst (convertTabs old ts (mapSet (tab_actor t) existing currentTabs)),
        [] @ snd (convertTabs old ts (mapSet (tab_actor t) existing currentTabs)))"
    using Some by (simp add: Let_def split_beta)
  ultimately show ?thesis by blast
qed

lemma convertTabs_nonempty:
  "ts \<noteq> [] \<or> currentTabs \<noteq> [] \<Longrightarrow> fst (convertTabs old ts currentTabs) \<noteq> []"
proof (induction ts arbitrary: currentTabs)
  case Nil
  then show ?case by simp
next
  case (Cons t ts)
  from convertTabs_Cons[of old t ts currentTabs] obtain tabActor effs where
    eq: "convertTabs old (t # ts) currentTabs =
       (fst (convertTabs old ts (mapSet (tab_actor t) tabActor currentTabs)),
        effs @ snd (convertTabs old ts (mapSet (tab_actor t) tabActor currentTabs)))"
    by blast
  have "fst (convertTabs old ts (mapSet (tab_actor t) tabActor currentTabs)) \<noteq> []"
    by (rule Cons.IH) (simp add: mapSet_nonempty)
  then show ?case unfolding eq by simp
qed

lemma resolved_convertTabs: "resolved (snd (convertTabs old ts currentTabs)) = []"
proof (induction ts arbitrary: currentTabs)
  case Nil
  then show ?case by (simp add: resolved_Nil)
next
  case (Cons t ts)
  from convertTabs_Cons[of old t ts currentTabs] obtain tabActor effs where
    eq: "convertTabs old (t # ts) currentTabs =
       (fst (convertTabs old ts (mapSet (tab_actor t) tabActor currentTabs)),
        effs @ snd (convertTabs old ts (mapSet (tab_actor t) tabActor currentTabs)))"
    and r: "resolved effs = []"
    by blast
  show ?case unfolding eq using r Cons.IH by (simp add: resolved_append)
qed

lemma resolved_closedTabs: "resolved (closedTabs old currentTabs) = []"
  by (induction old) (auto simp: closedTabs_def resolved_append resolved_Nil resolved_Cons)

lemma resolved_resolveOne:
  "resolveOne m pending = (pending', effs) \<Longrightarrow> (r, m') \<in> set (resolved effs) \<Longrightarrow> m' = m"
  by (auto simp: resolveOne_def resolved_Nil resolved_Cons split: list.splits)

lemma receiveResponse_resolved:
  assumes "(r, m) \<in> set (resolved (snd (receiveResponse response p)))"
  shows "m \<noteq> []"
proof -
  from assms obtain ts where ts: "tabs response = Some ts" "ts \<noteq> []"
    "\<not> truthyString (applicationType response)"
    by (auto simp: receiveResponse_def resolved_Nil resolved_Cons split: if_splits option.splits)
  obtain cur e1 where c: "convertTabs (root_tabs p) ts [] = (cur, e1)"
    by (cases "convertTabs (root_tabs p) ts []") auto
  obtain pend e3 where ro: "resolveOne cur (pendingTabsRequests p) = (pend, e3)"
    by (cases "resolveOne cur (pendingTabsRequests p)") auto
  have ne: "cur \<noteq> []" using convertTabs_nonempty[of ts "[]" "root_tabs p"] ts c by simp
  have r1: "resolved e1 = []" using resolved_convertTabs[of "root_tabs p" ts "[]"] c by simp
  have "(r, m) \<in> set (resolved e3)"
    using assms ts c ro r1
    by (simp add: receiveResponse_def resolved_append resolved_Nil resolved_Cons resolved_closedTabs)
  from resolved_resolveOne[OF ro this] ne show ?thesis by simp
qed

lemma rootStep_resolved:
  "(r, m) \<in> set (resolved (snd (rootStep i p))) \<Longrightarrow> m \<noteq> []"
  by (cases i) (auto simp: fetchTabs_def resolved_Nil resolved_Cons dest: receiveResponse_resolved)

text \<open>
  Claim C10. However \<^verbatim>\<open>fetchTabs\<close> is called and whatever responses the root proxy
  receives, every tab map that a pending request is resolved with is non-empty; a
  response with zero tabs resolves nothing and leaves the proxy, with its pending
  requests, as it is: it only schedules the \<^verbatim>\<open>listTabs\<close> request again after 100 ms.
\<close>

theorem fetchTabs_never_empty:
  "(\<forall>(r, m) \<in> set (resolved (snd (rootRun inputs p))). m \<noteq> []) \<and>
   (\<not> truthyString (applicationType response) \<and> tabs response = Some [] \<longrightarrow>
      receiveResponse response p =
        (p, [RootLog LogInfo ''Received 0 tabs - will retry in 100ms'',
             SetTimeout 100 (SendRequest ''root'' ''listTabs'')]))"
proof -
  have "\<forall>(r, m) \<in> set (resolved (snd (rootRun inputs p))). m \<noteq> []"
  proof (induction inputs arbitrary: p)
    case Nil
    then show ?case by (simp add: resolved_Nil)
  next
    case (Cons i inputs)
    obtain p' effs where st: "rootStep i p = (p', effs)" by (cases "rootStep i p") auto
    have "\<forall>(r, m) \<in> set (resolved effs). m \<noteq> []"
      using rootStep_resolved[of _ _ i p] st by auto
    then show ?case using Cons.IH[of p'] st
      by (auto simp: resolved_append split: prod.splits)
  qed
  then show ?thesis by (simp add: receiveResponse_def)
qed

text \<open>The theorem at a request that is answered with zero tabs first and with one tab then.\<close>

theorem fetchTabs_never_empty_witness:
  "resolved (snd (rootRun [CallFetchTabs, Receive noTabsResponse, Receive oneTabResponse] newRootProxy)) =
     [(0, [(''tab1'', \<lparr> tabActor_name = ''tab1'', tabActor_title = ''Start'',
                        tabActor_url = ''about:home'' \<rparr>)])] \<and>
   [(''tab1'', \<lparr> tabActor_name = ''tab1'', tabActor_title = ''Start'',
                        tabActor_url = ''about:home'' \<rparr>)] \<noteq> [] \<and>
   receiveResponse noTabsResponse newRootProxy =
     (newRootProxy, [RootLog LogInfo ''Received 0 tabs - will retry in 100ms'',
                     SetTimeout 100 (SendRequest ''root'' ''listTabs'')])"
proof -
  have run: "resolved (snd (rootRun [CallFetchTabs, Receive noTabsResponse, Receive oneTabResponse] newRootProxy)) =
     [(0, [(''tab1'', \<lparr> tabActor_name = ''tab1'', tabActor_title = ''Start'',
                        tabActor_url = ''about:home'' \<rparr>)])]"
    by (simp add: newRootProxy_def noTabsResponse_def oneTabResponse_def fetchTabs_def enqueue_def
          receiveResponse_def truthyString_def mapGet_def mapHas_def resolveOne_def closedTabs_def
          resolved_Nil resolved_Cons resolved_append Let_def)
  have hyp: "\<not> truthyString (applicationType noTabsResponse) \<and> tabs noTabsResponse = Some []"
    by (simp add: noTabsResponse_def truthyString_def)
  from fetchTabs_never_empty[of "[CallFetchTabs, Receive noTabsResponse, Receive oneTabResponse]"
      newRootProxy noTabsResponse] run hyp
  show ?thesis by simp
qed

section \<open>Thread lifecycle events\<close>
































end
